theory Spec2Isabelle
  imports Main
begin

section \<open>Values, exceptions and outcomes\<close>

text \<open>
  The module \<^verbatim>\<open>saleor/graphql/webhook/subscription_payload.py\<close> orchestrates three
  collaborators that it imports: the GraphQL backend (\<^verbatim>\<open>parse\<close>,
  \<^verbatim>\<open>document_from_string\<close>, \<^verbatim>\<open>document.execute\<close>), the promise library and a few
  helpers of the surrounding package (\<^verbatim>\<open>get_context_value\<close>, \<^verbatim>\<open>format_error\<close>, the
  \<^verbatim>\<open>App\<close> model, \<^verbatim>\<open>WebhookErrorCode\<close>). The functions of the module are embedded
  below as they are written; the collaborators are parameters, gathered in the record
  \<open>env\<close>, and every call into them may raise.
\<close>

datatype exn =
    GraphQLSyntaxError string
  | ValueError string
  | AttributeError string
  | TypeError string
  | OtherError string

text \<open>
  Python values as they occur in execution results. A dictionary is an association list
  in insertion order. A promise is modelled by the way it settles: \<open>Resolved v\<close> was
  resolved with \<open>v\<close>, \<open>Rejected e\<close> was rejected with the exception \<open>e\<close>, and
  \<open>Pending\<close> never settles.
\<close>

datatype pyval =
    PNone
  | PBool bool
  | PInt int
  | PStr string
  | PList "pyval list"
  | PDict "(string \<times> pyval) list"
  | PPromise promise
and promise =
    Resolved pyval
  | Rejected exn
  | Pending

text \<open>
  The outcome of a call that may wait on a promise: it returns, raises, or blocks for
  ever.
\<close>

datatype 'a outcome = Returned 'a | Raised exn | Blocked

section \<open>The query document\<close>

datatype selection =
    Field string "selection list"
  | FragmentSpread string
  | InlineFragment string "selection list"

text \<open>
  Top-level definitions of a parsed document. \<open>OperationDefinition operation selections\<close>
  carries the operation kind as the string the parser stores (\<^verbatim>\<open>"query"\<close>,
  \<^verbatim>\<open>"mutation"\<close>, \<^verbatim>\<open>"subscription"\<close>) and the selections of its selection set. Any
  node that is neither a fragment nor an operation (a type-system definition) is an
  \<open>OtherDefinition\<close>.
\<close>

datatype ast_definition =
    FragmentDefinition string "selection list"
  | OperationDefinition string "selection list"
  | OtherDefinition string

record document_ast =
  definitions :: "ast_definition list"

section \<open>Execution results\<close>

record 'err execution_result =
  data :: pyval
  errors :: "'err list option"

text \<open>
  What \<^verbatim>\<open>document.execute(allow_subscriptions=True, ...)\<close> gives back: an
  \<^verbatim>\<open>ExecutionResult\<close> (which has an attribute \<^verbatim>\<open>errors\<close>), or an observable. The
  observable is modelled by the results it emits to a subscriber, in order, during the
  call of \<^verbatim>\<open>subscribe\<close>.
\<close>

datatype 'err results =
    ExecutionResult "'err execution_result"
  | Observable "'err execution_result list"

record ('root, 'ctx, 'err) graphql_document =
  document_ast :: document_ast
  execute :: "bool \<Rightarrow> 'root \<Rightarrow> 'ctx \<Rightarrow> exn + 'err results"

text \<open>\<^verbatim>\<open>document_from_string\<close> is called with a query string and with a parsed AST.\<close>

datatype document_source = Text string | Ast document_ast

text \<open>
  Modelled from the spec: the \<^verbatim>\<open>App\<close> model (\<^verbatim>\<open>saleor/app/models.py\<close>) is not part of
  the sources at hand; the module reads only its primary key, the app identity.
\<close>

record app =
  pk :: int

text \<open>The request object; the module sets its attribute \<^verbatim>\<open>app\<close>.\<close>

record http_request =
  request_app :: "app option"

record log_record =
  levelname :: string
  msg :: string
  extra_query :: "string option"
  extra_app :: "int option"

text \<open>
  The collaborators. \<open>invalid_code\<close> is \<^verbatim>\<open>WebhookErrorCode.INVALID.value\<close>, \<open>str_errors\<close>
  is Python's \<^verbatim>\<open>str\<close> on the error list of an execution result.
\<close>

record ('root, 'ctx, 'err) env =
  parse :: "string option \<Rightarrow> exn + document_ast"
  document_from_string :: "document_source \<Rightarrow> exn + ('root, 'ctx, 'err) graphql_document"
  get_context_value :: "http_request \<Rightarrow> 'ctx"
  format_error :: "'err \<Rightarrow> pyval"
  str_errors :: "'err list option \<Rightarrow> string"
  invalid_code :: string

section \<open>Validation of a subscription query\<close>

text \<open>
  The loop of \<^verbatim>\<open>check_document_is_single_subscription\<close>, with the list
  \<^verbatim>\<open>subscriptions\<close> as accumulator: a fragment is passed over, a subscription with one
  selection is appended, anything else returns \<^verbatim>\<open>False\<close> at once; after the loop the
  answer is \<^verbatim>\<open>len(subscriptions) == 1\<close>.
\<close>

fun check_definitions :: "ast_definition list \<Rightarrow> ast_definition list \<Rightarrow> bool" where
  "check_definitions subscriptions [] = (length subscriptions = 1)"
| "check_definitions subscriptions (FragmentDefinition n sels # rest) =
     check_definitions subscriptions rest"
| "check_definitions subscriptions (OperationDefinition operation sels # rest) =
     (if operation = ''subscription'' then
        (if length sels \<noteq> 1 then False
         else check_definitions (subscriptions @ [OperationDefinition operation sels]) rest)
      else False)"
| "check_definitions subscriptions (OtherDefinition n # rest) = False"

definition check_document_is_single_subscription ::
  "('root, 'ctx, 'err) graphql_document \<Rightarrow> bool" where
  "check_document_is_single_subscription document =
     check_definitions [] (definitions (document_ast document))"

text \<open>
  \<^verbatim>\<open>validate_subscription_query\<close>: the exceptions \<^verbatim>\<open>ValueError\<close> and
  \<^verbatim>\<open>GraphQLSyntaxError\<close> of the backend are caught and give \<^verbatim>\<open>False\<close>; any other
  exception propagates.
\<close>

definition validate_subscription_query ::
  "('root, 'ctx, 'err) env \<Rightarrow> string \<Rightarrow> exn + bool" where
  "validate_subscription_query e query =
     (case document_from_string e (Text query) of
        Inl (ValueError m) \<Rightarrow> Inr False
      | Inl (GraphQLSyntaxError m) \<Rightarrow> Inr False
      | Inl ex \<Rightarrow> Inl ex
      | Inr document \<Rightarrow>
          (if \<not> check_document_is_single_subscription document then Inr False
           else Inr True))"

text \<open>
  \<^verbatim>\<open>validate_query\<close> raises a \<^verbatim>\<open>ValidationError\<close> built from a dictionary: field name
  to message and code. An exception that \<^verbatim>\<open>validate_subscription_query\<close> lets through
  propagates unchanged.
\<close>

datatype validate_query_exn =
    ValidationError "(string \<times> string \<times> string) list"
  | Propagated exn

text \<open>
  \<^verbatim>\<open>if not query: return\<close>: Python's \<^verbatim>\<open>None\<close> and the empty string are false.
\<close>

definition validate_query ::
  "('root, 'ctx, 'err) env \<Rightarrow> string option \<Rightarrow> validate_query_exn + unit" where
  "validate_query e query =
     (case query of
        None \<Rightarrow> Inr ()
      | Some q \<Rightarrow>
          (if q = [] then Inr ()
           else
             (case validate_subscription_query e q of
                Inl ex \<Rightarrow> Inl (Propagated ex)
              | Inr is_valid \<Rightarrow>
                  (if \<not> is_valid then
                     Inl (ValidationError
                       [(''query'', ''Subscription query is not valid'', invalid_code e)])
                   else Inr ()))))"

section \<open>Generating a payload\<close>

text \<open>
  \<^verbatim>\<open>Promise.get()\<close> waits until the promise has settled and returns its value or raises
  its reason. A promise resolved with another promise follows that promise, so the
  value that comes back is the value at the end of the chain.
\<close>

fun promise_get :: "promise \<Rightarrow> pyval outcome" where
  "promise_get (Resolved (PPromise p)) = promise_get p"
| "promise_get (Resolved v) = Returned v"
| "promise_get (Rejected ex) = Raised ex"
| "promise_get Pending = Blocked"

fun get_event_payload :: "pyval \<Rightarrow> pyval outcome" where
  "get_event_payload (PPromise p) = promise_get p"
| "get_event_payload event = Returned event"

text \<open>
  \<^verbatim>\<open>data.get(key)\<close>: on a dictionary the value of the key, or \<^verbatim>\<open>None\<close> when the key
  is missing; a value that is no dictionary (the \<^verbatim>\<open>data\<close> of a failed result is
  \<^verbatim>\<open>None\<close>) has no method \<^verbatim>\<open>get\<close>.
\<close>

fun dict_get :: "pyval \<Rightarrow> string \<Rightarrow> exn + pyval" where
  "dict_get (PDict kvs) key = Inr (case map_of kvs key of None \<Rightarrow> PNone | Some v \<Rightarrow> v)"
| "dict_get other key = Inl (AttributeError ''get'')"

text \<open>
  \<^verbatim>\<open>d[key] = v\<close>: on a dictionary an existing key keeps its place and takes the new
  value, a new key goes to the end; on any other value the assignment raises
  \<^verbatim>\<open>TypeError\<close>.
\<close>

fun dict_store :: "(string \<times> 'v) list \<Rightarrow> string \<Rightarrow> 'v \<Rightarrow> (string \<times> 'v) list" where
  "dict_store [] key v = [(key, v)]"
| "dict_store ((k, w) # kvs) key v =
     (if k = key then (k, v) # kvs else (k, w) # dict_store kvs key v)"

fun setitem :: "pyval \<Rightarrow> string \<Rightarrow> pyval \<Rightarrow> exn + pyval" where
  "setitem (PDict kvs) key v = Inr (PDict (dict_store kvs key v))"
| "setitem other key v = Inl (TypeError ''item assignment'')"

definition warning :: "string \<Rightarrow> string option \<Rightarrow> int option \<Rightarrow> log_record" where
  "warning m query app_id =
     \<lparr>levelname = ''WARNING'', msg = m, extra_query = query, extra_app = app_id\<rparr>"

text \<open>
  \<^verbatim>\<open>generate_payload_from_subscription\<close> gives its outcome and the records it has
  logged. The steps are those of the source, in its order: parse the query, build the
  document from the AST, set \<^verbatim>\<open>request.app\<close>, execute with the root
  \<^verbatim>\<open>(event_type, subscribable_object)\<close>; a result with the attribute \<^verbatim>\<open>errors\<close>
  is logged and gives \<^verbatim>\<open>None\<close>; otherwise the emitted results are collected, none
  is logged and gives \<^verbatim>\<open>None\<close>, and of the first one the value of \<^verbatim>\<open>"event"\<close> in
  \<^verbatim>\<open>data\<close> is resolved and, when the result has errors, takes them under the key
  \<^verbatim>\<open>"errors"\<close>.
\<close>

definition generate_payload_from_subscription ::
  "(string \<times> 'obj, 'ctx, 'err) env \<Rightarrow> string \<Rightarrow> 'obj \<Rightarrow> string option \<Rightarrow> http_request \<Rightarrow>
     app option \<Rightarrow> pyval outcome \<times> log_record list" where
  "generate_payload_from_subscription e event_type subscribable_object subscription_query
       request app =
     (case parse e subscription_query of
        Inl ex \<Rightarrow> (Raised ex, [])
      | Inr ast \<Rightarrow>
     (case document_from_string e (Ast ast) of
        Inl ex \<Rightarrow> (Raised ex, [])
      | Inr document \<Rightarrow>
     (let app_id = map_option pk app;
          request = request\<lparr>request_app := app\<rparr>
      in
     (case execute document True (event_type, subscribable_object)
             (get_context_value e request) of
        Inl ex \<Rightarrow> (Raised ex, [])
      | Inr (ExecutionResult r) \<Rightarrow>
          (Returned PNone,
           [warning (''Unable to build a payload for subscription. '' @ [CHR 0x0A] @
                     ''error: '' @ str_errors e (errors r))
              subscription_query app_id])
      | Inr (Observable payload) \<Rightarrow>
     (case payload of
        [] \<Rightarrow>
          (Returned PNone,
           [warning ''Subscription did not return a payload.'' subscription_query app_id])
      | payload_instance # later \<Rightarrow>
     (case dict_get (data payload_instance) ''event'' of
        Inl ex \<Rightarrow> (Raised ex, [])
      | Inr event \<Rightarrow>
     (case get_event_payload event of
        Raised ex \<Rightarrow> (Raised ex, [])
      | Blocked \<Rightarrow> (Blocked, [])
      | Returned event_payload \<Rightarrow>
     (case errors payload_instance of
        Some (err # errs) \<Rightarrow>
          (case setitem event_payload ''errors''
                  (PList (map (format_error e) (err # errs))) of
             Inl ex \<Rightarrow> (Raised ex, [])
           | Inr with_errors \<Rightarrow> (Returned with_errors, []))
      | _ \<Rightarrow> (Returned event_payload, [])))))))))"

section \<open>The specification's reading of the structural rule\<close>

text \<open>
  The rule as the specification words it: fragment definitions are ignored, every other
  definition is a subscription operation with exactly one selection, and there is
  exactly one such operation.
\<close>

fun is_fragment :: "ast_definition \<Rightarrow> bool" where
  "is_fragment (FragmentDefinition n sels) = True"
| "is_fragment other = False"

fun is_single_selection_subscription :: "ast_definition \<Rightarrow> bool" where
  "is_single_selection_subscription (OperationDefinition operation sels) =
     (operation = ''subscription'' \<and> length sels = 1)"
| "is_single_selection_subscription other = False"

definition spec_single_subscription :: "ast_definition list \<Rightarrow> bool" where
  "spec_single_subscription defs \<longleftrightarrow>
     (\<forall>d \<in> set defs. \<not> is_fragment d \<longrightarrow> is_single_selection_subscription d) \<and>
     length (filter is_single_selection_subscription defs) = 1"

section \<open>Observations on payloads\<close>

fun is_promise :: "pyval \<Rightarrow> bool" where
  "is_promise (PPromise p) = True"
| "is_promise other = False"

text \<open>\<^verbatim>\<open>key in payload\<close> for a dictionary payload.\<close>

fun has_key :: "pyval \<Rightarrow> string \<Rightarrow> bool" where
  "has_key (PDict kvs) key = (key \<in> fst ` set kvs)"
| "has_key other key = False"

text \<open>An execution result carries field-level errors when its error list is not empty.\<close>

definition carries_errors :: "'err execution_result \<Rightarrow> bool" where
  "carries_errors r = (case errors r of Some (err # errs) \<Rightarrow> True | _ \<Rightarrow> False)"

section \<open>Sample inputs\<close>

text \<open>
  A backend with fixed answers, standing for the GraphQL engine at one query and one
  event: the query text parses to \<open>parsed\<close> and the execution of the document gives
  \<open>answer\<close>. Errors are plain messages, formatted as \<^verbatim>\<open>{"message": m}\<close>.
\<close>

definition sample_env ::
  "(exn + document_ast) \<Rightarrow> (exn + string results) \<Rightarrow>
     (string \<times> pyval, http_request, string) env" where
  "sample_env parsed answer =
     \<lparr>parse = (\<lambda>query. parsed),
      document_from_string = (\<lambda>src.
        case src of
          Text query \<Rightarrow>
            (case parsed of
               Inl ex \<Rightarrow> Inl ex
             | Inr ast \<Rightarrow> Inr \<lparr>document_ast = ast, execute = (\<lambda>allow root ctx. answer)\<rparr>)
        | Ast ast \<Rightarrow> Inr \<lparr>document_ast = ast, execute = (\<lambda>allow root ctx. answer)\<rparr>),
      get_context_value = (\<lambda>request. request),
      format_error = (\<lambda>m. PDict [(''message'', PStr m)]),
      str_errors = (\<lambda>errs. case errs of None \<Rightarrow> ''None'' | Some ms \<Rightarrow> concat ms),
      invalid_code = ''invalid''\<rparr>"

text \<open>The query \<^verbatim>\<open>subscription { event { id } }\<close> and its document.\<close>

definition event_id_query :: string where
  "event_id_query = ''subscription { event { id } }''"

definition event_id_ast :: document_ast where
  "event_id_ast =
     \<lparr>definitions = [OperationDefinition ''subscription'' [Field ''event'' [Field ''id'' []]]]\<rparr>"

text \<open>The document of \<^verbatim>\<open>subscription { a } subscription { b }\<close>.\<close>

definition two_subscriptions_ast :: document_ast where
  "two_subscriptions_ast =
     \<lparr>definitions = [OperationDefinition ''subscription'' [Field ''a'' []],
                     OperationDefinition ''subscription'' [Field ''b'' []]]\<rparr>"

text \<open>The event \<^verbatim>\<open>{id: "42"}\<close> and the result the engine emits for it.\<close>

definition event_42 :: pyval where
  "event_42 = PDict [(''id'', PStr ''42'')]"

definition event_id_result :: "string execution_result" where
  "event_id_result =
     \<lparr>data = PDict [(''event'', PDict [(''id'', PStr ''42'')])], errors = None\<rparr>"

text \<open>A result with one field denied and the others resolved.\<close>

definition denied_result :: "string execution_result" where
  "denied_result =
     \<lparr>data = PDict [(''event'', PDict [(''id'', PStr ''42''), (''secret'', PNone)])],
      errors = Some [''permission denied'']\<rparr>"

text \<open>
  The result of \<^verbatim>\<open>subscription { event { errors: version } }\<close>: the alias names a field
  of the event \<^verbatim>\<open>errors\<close>, and nothing failed.
\<close>

definition aliased_result :: "string execution_result" where
  "aliased_result =
     \<lparr>data = PDict [(''event'', PDict [(''errors'', PStr ''3.1'')])], errors = None\<rparr>"

text \<open>A result whose event is a promise, resolved with a promise of the event.\<close>

definition deferred_result :: "string execution_result" where
  "deferred_result =
     \<lparr>data = PDict [(''event'', PPromise (Resolved (PPromise (Resolved event_42))))],
      errors = None\<rparr>"

text \<open>A result whose data has the key \<^verbatim>\<open>order\<close> and no key \<^verbatim>\<open>event\<close>.\<close>

definition other_field_result :: "string execution_result" where
  "other_field_result =
     \<lparr>data = PDict [(''order'', PDict [(''id'', PStr ''42'')])], errors = None\<rparr>"

text \<open>A failed execution: no data, one error.\<close>

definition failed_result :: "string execution_result" where
  "failed_result = \<lparr>data = PNone, errors = Some [''Cannot query field'']\<rparr>"

definition no_request :: http_request where
  "no_request = \<lparr>request_app = None\<rparr>"

definition app_7 :: app where
  "app_7 = \<lparr>pk = 7\<rparr>"
section \<open>Properties of the validator\<close>

lemma check_definitions_spec:
  "check_definitions subs defs \<longleftrightarrow>
     (\<forall>d \<in> set defs. \<not> is_fragment d \<longrightarrow> is_single_selection_subscription d) \<and>
     length subs + length (filter is_single_selection_subscription defs) = 1"
proof (induction subs defs rule: check_definitions.induct)
  case (1 subscriptions)
  then show ?case by simp
next
  case (2 subscriptions n sels rest)
  then show ?case by simp
next
  case (3 subscriptions operation sels rest)
  then show ?case by auto
next
  case (4 subscriptions n rest)
  then show ?case by simp
qed

lemma sample_document_from_text:
  "document_from_string (sample_env (Inr ast) answer) (Text query) =
     Inr \<lparr>document_ast = ast, execute = (\<lambda>allow root ctx. answer)\<rparr>"
  by (simp add: sample_env_def)

lemma sample_syntax_error:
  "document_from_string (sample_env (Inl ex) answer) (Text query) = Inl ex"
  by (simp add: sample_env_def)

lemma sample_event_id_valid:
  "validate_subscription_query (sample_env (Inr event_id_ast) answer) event_id_query = Inr True"
  by (simp add: validate_subscription_query_def check_document_is_single_subscription_def
      sample_document_from_text event_id_ast_def)

lemma sample_two_subscriptions_invalid:
  "validate_subscription_query (sample_env (Inr two_subscriptions_ast) answer) query = Inr False"
  by (simp add: validate_subscription_query_def check_document_is_single_subscription_def
      sample_document_from_text two_subscriptions_ast_def)

text \<open>
  Claim C2. For every query that the backend parses into a document,
  \<^verbatim>\<open>validate_subscription_query\<close> returns, and its answer is true exactly when the
  document meets the rule as the specification words it: ignoring fragment definitions,
  every top-level definition is a subscription operation with exactly one selection,
  and there is exactly one such operation. Every other document is answered with false.
\<close>

theorem validate_subscription_query_single_subscription:
  assumes "document_from_string e (Text query) = Inr document"
  shows "validate_subscription_query e query =
           Inr (spec_single_subscription (definitions (document_ast document)))"
  using assms
  by (auto simp: validate_subscription_query_def check_document_is_single_subscription_def
      check_definitions_spec spec_single_subscription_def)

theorem validate_subscription_query_single_subscription_witness:
  "validate_subscription_query (sample_env (Inr event_id_ast) (Inr (Observable [])))
     event_id_query = Inr True \<and>
   validate_subscription_query (sample_env (Inr two_subscriptions_ast) (Inr (Observable [])))
     ''subscription { a } subscription { b }'' = Inr False"
  using
    validate_subscription_query_single_subscription [OF sample_document_from_text,
      of event_id_ast "Inr (Observable [])" event_id_query]
    validate_subscription_query_single_subscription [OF sample_document_from_text,
      of two_subscriptions_ast "Inr (Observable [])" "''subscription { a } subscription { b }''"]
  by (simp add: spec_single_subscription_def event_id_ast_def two_subscriptions_ast_def)

text \<open>
  Claim C3, as amended. The shortcut for an empty or absent query is in
  \<^verbatim>\<open>validate_query\<close>, which returns at once for \<^verbatim>\<open>None\<close> and for the empty string.
  \<^verbatim>\<open>validate_subscription_query\<close> has no such shortcut: the empty string goes to the
  backend like any other text, and the answer is true only if the backend parses it into
  a document that passes the structural check.
\<close>

theorem empty_query_shortcut_in_validate_query:
  "validate_query e None = Inr () \<and>
   validate_query e (Some []) = Inr () \<and>
   (validate_subscription_query e [] = Inr True \<longleftrightarrow>
      (\<exists>document. document_from_string e (Text []) = Inr document \<and>
         check_document_is_single_subscription document))"
  by (auto simp: validate_query_def validate_subscription_query_def
      split: sum.splits exn.splits)

theorem empty_query_shortcut_in_validate_query_witness:
  "validate_query (sample_env (Inl (GraphQLSyntaxError ''Unexpected EOF'')) (Inr (Observable [])))
     (Some []) = Inr () \<and>
   validate_subscription_query
     (sample_env (Inl (GraphQLSyntaxError ''Unexpected EOF'')) (Inr (Observable []))) []
     \<noteq> Inr True"
  using empty_query_shortcut_in_validate_query
    [of "sample_env (Inl (GraphQLSyntaxError ''Unexpected EOF'')) (Inr (Observable []))"]
  by (simp add: sample_syntax_error)

text \<open>
  The claim as stated fails: a backend that rejects the empty text with a syntax error
  (a GraphQL document has at least one definition) makes
  \<^verbatim>\<open>validate_subscription_query("")\<close> false, and so does one that parses it into a
  document without definitions.
\<close>

theorem validate_subscription_query_empty_counterexample:
  "validate_subscription_query
     (sample_env (Inl (GraphQLSyntaxError ''Unexpected EOF'')) (Inr (Observable []))) []
     = Inr False \<and>
   validate_subscription_query
     (sample_env (Inr \<lparr>definitions = []\<rparr>) (Inr (Observable []))) [] = Inr False"
  by (simp add: validate_subscription_query_def check_document_is_single_subscription_def
      sample_syntax_error sample_document_from_text)

text \<open>
  Claim C8. When the backend rejects the query text with a syntax error,
  \<^verbatim>\<open>validate_subscription_query\<close> returns false; the exception does not reach the
  caller.
\<close>

theorem syntax_error_gives_false:
  assumes "document_from_string e (Text query) = Inl (GraphQLSyntaxError m)"
  shows "validate_subscription_query e query = Inr False"
  using assms by (simp add: validate_subscription_query_def)

theorem syntax_error_gives_false_witness:
  "validate_subscription_query
     (sample_env (Inl (GraphQLSyntaxError ''Expected Name, found EOF'')) (Inr (Observable [])))
     ''subscription { event { id '' = Inr False"
  by (rule syntax_error_gives_false [OF sample_syntax_error])

text \<open>
  Claim C9. \<^verbatim>\<open>validate_query\<close> raises the validation error with the field
  \<^verbatim>\<open>query\<close>, the message \<^verbatim>\<open>Subscription query is not valid\<close> and the code
  \<^verbatim>\<open>WebhookErrorCode.INVALID.value\<close> exactly when the query is not empty and
  \<^verbatim>\<open>validate_subscription_query\<close> answers false; it raises no other validation error;
  for \<^verbatim>\<open>None\<close> and for the empty string it returns without raising.
\<close>

theorem validate_query_raises_iff_invalid:
  "(validate_query e query =
      Inl (ValidationError [(''query'', ''Subscription query is not valid'', invalid_code e)])
    \<longleftrightarrow> (\<exists>q. query = Some q \<and> q \<noteq> [] \<and> validate_subscription_query e q = Inr False))
   \<and> ((\<exists>errs. validate_query e query = Inl (ValidationError errs))
    \<longleftrightarrow> (\<exists>q. query = Some q \<and> q \<noteq> [] \<and> validate_subscription_query e q = Inr False))
   \<and> validate_query e None = Inr ()
   \<and> validate_query e (Some []) = Inr ()"
  by (auto simp: validate_query_def split: option.splits sum.splits if_splits)

theorem validate_query_raises_iff_invalid_witness:
  "validate_query (sample_env (Inr two_subscriptions_ast) (Inr (Observable [])))
     (Some ''subscription { a } subscription { b }'') =
     Inl (ValidationError [(''query'', ''Subscription query is not valid'', ''invalid'')]) \<and>
   validate_query (sample_env (Inr event_id_ast) (Inr (Observable []))) (Some event_id_query)
     \<noteq> Inl (ValidationError [(''query'', ''Subscription query is not valid'', ''invalid'')])"
proof -
  let ?e1 = "sample_env (Inr event_id_ast) (Inr (Observable []))"
  let ?e2 = "sample_env (Inr two_subscriptions_ast) (Inr (Observable []))"
  have c: "invalid_code ?e1 = ''invalid''" "invalid_code ?e2 = ''invalid''"
    by (simp_all add: sample_env_def)
  have "validate_query ?e2 (Some ''subscription { a } subscription { b }'') =
     Inl (ValidationError [(''query'', ''Subscription query is not valid'', ''invalid'')])"
    using validate_query_raises_iff_invalid
      [of ?e2 "Some ''subscription { a } subscription { b }''"]
      sample_two_subscriptions_invalid c
    by simp
  moreover have "validate_query ?e1 (Some event_id_query)
     \<noteq> Inl (ValidationError [(''query'', ''Subscription query is not valid'', ''invalid'')])"
    using validate_query_raises_iff_invalid [of ?e1 "Some event_id_query"]
      sample_event_id_valid c
    by simp
  ultimately show ?thesis by simp
qed

section \<open>Properties of the payload generator\<close>

lemma promise_get_not_promise: "promise_get p = Returned v \<Longrightarrow> \<not> is_promise v"
  by (induction p rule: promise_get.induct) auto

lemma get_event_payload_not_promise:
  "get_event_payload event = Returned v \<Longrightarrow> \<not> is_promise v"
  by (cases event) (auto dest: promise_get_not_promise)

lemma map_of_dict_store: "map_of (dict_store kvs key v) = (map_of kvs)(key \<mapsto> v)"
  by (induction kvs key v rule: dict_store.induct) auto

lemma keys_dict_store: "fst ` set (dict_store kvs key v) = insert key (fst ` set kvs)"
  by (induction kvs key v rule: dict_store.induct) auto

lemma setitem_Inr:
  "setitem v key x = Inr w \<Longrightarrow> \<exists>kvs. v = PDict kvs \<and> w = PDict (dict_store kvs key x)"
  by (cases v) auto

text \<open>What the function does with the first result of an observable.\<close>

lemma generate_observable:
  assumes "parse e query = Inr ast"
    and "document_from_string e (Ast ast) = Inr document"
    and "execute document True (event_type, obj)
           (get_context_value e (request\<lparr>request_app := app\<rparr>)) = Inr (Observable (r # later))"
  shows "generate_payload_from_subscription e event_type obj query request app =
     (case dict_get (data r) ''event'' of
        Inl ex \<Rightarrow> (Raised ex, [])
      | Inr event \<Rightarrow>
     (case get_event_payload event of
        Raised ex \<Rightarrow> (Raised ex, [])
      | Blocked \<Rightarrow> (Blocked, [])
      | Returned event_payload \<Rightarrow>
     (case errors r of
        Some (err # errs) \<Rightarrow>
          (case setitem event_payload ''errors''
                  (PList (map (format_error e) (err # errs))) of
             Inl ex \<Rightarrow> (Raised ex, [])
           | Inr with_errors \<Rightarrow> (Returned with_errors, []))
      | _ \<Rightarrow> (Returned event_payload, []))))"
  using assms by (simp add: generate_payload_from_subscription_def)

lemma sample_parse: "parse (sample_env (Inr ast) answer) query = Inr ast"
  by (simp add: sample_env_def)

lemma sample_document_from_ast:
  "document_from_string (sample_env parsed answer) (Ast ast) =
     Inr \<lparr>document_ast = ast, execute = (\<lambda>allow root ctx. answer)\<rparr>"
  by (simp add: sample_env_def)

lemma sample_execute:
  "execute \<lparr>document_ast = ast, execute = (\<lambda>allow root ctx. answer)\<rparr> True root
     (get_context_value (sample_env parsed answer) request) = answer"
  by simp

lemma sample_format_error:
  "format_error (sample_env parsed answer) m = PDict [(''message'', PStr m)]"
  by (simp add: sample_env_def)

text \<open>
  Claim C1, as amended. When the first emitted result has no field-level errors and its
  data binds \<^verbatim>\<open>event\<close> to a value, \<^verbatim>\<open>generate_payload_from_subscription\<close> returns
  that value, resolved: the mapping of the fields selected inside \<^verbatim>\<open>event\<close>, not a
  mapping that holds it under the name \<^verbatim>\<open>event\<close>. Nothing is logged and no key
  \<^verbatim>\<open>errors\<close> is added. For \<^verbatim>\<open>subscription { event { id } }\<close> and the event
  \<^verbatim>\<open>{id: "42"}\<close> the payload is \<^verbatim>\<open>{"id": "42"}\<close>.
\<close>

theorem payload_is_event_value:
  assumes "parse e query = Inr ast"
    and "document_from_string e (Ast ast) = Inr document"
    and "execute document True (event_type, obj)
           (get_context_value e (request\<lparr>request_app := app\<rparr>)) = Inr (Observable (r # later))"
    and "data r = PDict kvs"
    and "map_of kvs ''event'' = Some event"
    and "get_event_payload event = Returned v"
    and "errors r = None \<or> errors r = Some []"
  shows "generate_payload_from_subscription e event_type obj query request app =
     (Returned v, [])"
  using assms(4-7) generate_observable [OF assms(1-3)] by auto

theorem payload_is_event_value_witness:
  "generate_payload_from_subscription
     (sample_env (Inr event_id_ast) (Inr (Observable [event_id_result])))
     ''event_type'' event_42 (Some event_id_query) no_request None =
     (Returned (PDict [(''id'', PStr ''42'')]), [])"
proof -
  have d: "data event_id_result = PDict [(''event'', PDict [(''id'', PStr ''42'')])]"
    by (simp add: event_id_result_def)
  have m: "map_of [(''event'', PDict [(''id'', PStr ''42'')])] ''event'' =
             Some (PDict [(''id'', PStr ''42'')])"
    by simp
  have g: "get_event_payload (PDict [(''id'', PStr ''42'')]) =
             Returned (PDict [(''id'', PStr ''42'')])"
    by simp
  have n: "errors event_id_result = None \<or> errors event_id_result = Some []"
    by (simp add: event_id_result_def)
  show ?thesis
    by (rule payload_is_event_value
        [OF sample_parse sample_document_from_ast sample_execute d m g n])
qed

text \<open>
  The claim as stated fails on its own example: the payload is not
  \<^verbatim>\<open>{"event": {"id": "42"}}\<close>.
\<close>

theorem payload_keyed_by_event_counterexample:
  "fst (generate_payload_from_subscription
     (sample_env (Inr event_id_ast) (Inr (Observable [event_id_result])))
     ''event_type'' event_42 (Some event_id_query) no_request None)
   \<noteq> Returned (PDict [(''event'', PDict [(''id'', PStr ''42'')])])"
  by (simp add: generate_payload_from_subscription_def sample_parse sample_document_from_ast
      event_id_result_def)

text \<open>
  Claim C4. When the execution gives a result that carries \<^verbatim>\<open>errors\<close> instead of an
  observable, \<^verbatim>\<open>generate_payload_from_subscription\<close> returns \<^verbatim>\<open>None\<close> and raises
  nothing, and it has logged one warning whose extra data are the query text and the
  primary key of the app.
\<close>

theorem top_level_errors_give_none:
  assumes "parse e query = Inr ast"
    and "document_from_string e (Ast ast) = Inr document"
    and "execute document True (event_type, obj)
           (get_context_value e (request\<lparr>request_app := app\<rparr>)) = Inr (ExecutionResult r)"
  shows "generate_payload_from_subscription e event_type obj query request app =
     (Returned PNone,
      [\<lparr>levelname = ''WARNING'',
        msg = ''Unable to build a payload for subscription. '' @ [CHR 0x0A] @ ''error: '' @
              str_errors e (errors r),
        extra_query = query, extra_app = map_option pk app\<rparr>])"
  using assms by (simp add: generate_payload_from_subscription_def warning_def)

theorem top_level_errors_give_none_witness:
  "generate_payload_from_subscription
     (sample_env (Inr event_id_ast) (Inr (ExecutionResult failed_result)))
     ''event_type'' event_42 (Some event_id_query) no_request (Some app_7) =
     (Returned PNone,
      [\<lparr>levelname = ''WARNING'',
        msg = ''Unable to build a payload for subscription. '' @ [CHR 0x0A] @ ''error: '' @
              ''Cannot query field'',
        extra_query = Some event_id_query, extra_app = Some 7\<rparr>])"
proof -
  let ?e = "sample_env (Inr event_id_ast) (Inr (ExecutionResult failed_result))"
  let ?doc = "\<lparr>document_ast = event_id_ast,
                execute = (\<lambda>(allow::bool) (root::string \<times> pyval) (ctx::http_request).
                  Inr (ExecutionResult failed_result) :: exn + string results)\<rparr>"
  have p: "parse ?e (Some event_id_query) = Inr event_id_ast"
    by (rule sample_parse)
  have d: "document_from_string ?e (Ast event_id_ast) = Inr ?doc"
    by (rule sample_document_from_ast)
  have x: "execute ?doc True (''event_type'', event_42)
             (get_context_value ?e (no_request\<lparr>request_app := Some app_7\<rparr>)) =
           Inr (ExecutionResult failed_result)"
    by simp
  show ?thesis
    using top_level_errors_give_none [OF p d x]
    by (simp add: sample_env_def failed_result_def app_7_def)
qed

text \<open>
  Claim C5. When the execution gives an observable that emits no result,
  \<^verbatim>\<open>generate_payload_from_subscription\<close> returns \<^verbatim>\<open>None\<close>, which is not the empty
  mapping, and it has logged one warning.
\<close>

theorem no_emitted_result_gives_none:
  assumes "parse e query = Inr ast"
    and "document_from_string e (Ast ast) = Inr document"
    and "execute document True (event_type, obj)
           (get_context_value e (request\<lparr>request_app := app\<rparr>)) = Inr (Observable [])"
  shows "generate_payload_from_subscription e event_type obj query request app =
     (Returned PNone,
      [\<lparr>levelname = ''WARNING'', msg = ''Subscription did not return a payload.'',
        extra_query = query, extra_app = map_option pk app\<rparr>])
     \<and> fst (generate_payload_from_subscription e event_type obj query request app)
         \<noteq> Returned (PDict [])"
  using assms by (simp add: generate_payload_from_subscription_def warning_def)

theorem no_emitted_result_gives_none_witness:
  "generate_payload_from_subscription
     (sample_env (Inr event_id_ast) (Inr (Observable [])))
     ''event_type'' event_42 (Some event_id_query) no_request None =
     (Returned PNone,
      [\<lparr>levelname = ''WARNING'', msg = ''Subscription did not return a payload.'',
        extra_query = Some event_id_query, extra_app = None\<rparr>])"
proof -
  let ?e = "sample_env (Inr event_id_ast) (Inr (Observable []))"
  let ?doc = "\<lparr>document_ast = event_id_ast,
                execute = (\<lambda>(allow::bool) (root::string \<times> pyval) (ctx::http_request).
                  Inr (Observable []) :: exn + string results)\<rparr>"
  have p: "parse ?e (Some event_id_query) = Inr event_id_ast"
    by (rule sample_parse)
  have d: "document_from_string ?e (Ast event_id_ast) = Inr ?doc"
    by (rule sample_document_from_ast)
  have x: "execute ?doc True (''event_type'', event_42)
             (get_context_value ?e (no_request\<lparr>request_app := None\<rparr>)) =
           Inr (Observable [])"
    by simp
  show ?thesis
    using no_emitted_result_gives_none [OF p d x] by simp
qed

text \<open>
  Claim C6, as amended. Take a payload returned from the first emitted result. If that
  result carries a non-empty list of field-level errors, the payload is the resolved
  event mapping with the key \<^verbatim>\<open>errors\<close> set to the list of the formatted errors: it
  has the key \<^verbatim>\<open>errors\<close>, and every other key reads as in the event data. If the
  list is empty or absent, the payload is the resolved event value unchanged, so no key
  \<^verbatim>\<open>errors\<close> is added; the payload then has a key \<^verbatim>\<open>errors\<close> only when the event
  data itself has one.
\<close>

theorem errors_merged_under_key:
  assumes "parse e query = Inr ast"
    and "document_from_string e (Ast ast) = Inr document"
    and "execute document True (event_type, obj)
           (get_context_value e (request\<lparr>request_app := app\<rparr>)) = Inr (Observable (r # later))"
    and "generate_payload_from_subscription e event_type obj query request app =
           (Returned p, lg)"
  shows "\<exists>event v. dict_get (data r) ''event'' = Inr event \<and>
     get_event_payload event = Returned v \<and>
     (case errors r of
        Some (err # errs) \<Rightarrow>
          (\<exists>fields. v = PDict fields \<and>
             p = PDict (dict_store fields ''errors'' (PList (map (format_error e) (err # errs)))) \<and>
             has_key p ''errors'' \<and>
             dict_get p ''errors'' = Inr (PList (map (format_error e) (err # errs))) \<and>
             (\<forall>key. key \<noteq> ''errors'' \<longrightarrow> dict_get p key = dict_get v key))
      | _ \<Rightarrow> p = v)"
proof -
  from assms(4) generate_observable [OF assms(1-3)]
  obtain event v where ev: "dict_get (data r) ''event'' = Inr event"
    and v: "get_event_payload event = Returned v"
    and rest: "(case errors r of
        Some (err # errs) \<Rightarrow>
          (case setitem v ''errors'' (PList (map (format_error e) (err # errs))) of
             Inl ex \<Rightarrow> (Raised ex, [])
           | Inr with_errors \<Rightarrow> (Returned with_errors, []))
      | _ \<Rightarrow> (Returned v, [])) = (Returned p, lg)"
    by (auto split: sum.splits outcome.splits)
  have "(case errors r of
        Some (err # errs) \<Rightarrow>
          (\<exists>fields. v = PDict fields \<and>
             p = PDict (dict_store fields ''errors'' (PList (map (format_error e) (err # errs)))) \<and>
             has_key p ''errors'' \<and>
             dict_get p ''errors'' = Inr (PList (map (format_error e) (err # errs))) \<and>
             (\<forall>key. key \<noteq> ''errors'' \<longrightarrow> dict_get p key = dict_get v key))
      | _ \<Rightarrow> p = v)"
    using rest
    by (auto split: option.splits list.splits sum.splits dest!: setitem_Inr
        simp: map_of_dict_store keys_dict_store)
  with ev v show ?thesis by blast
qed

theorem errors_merged_under_key_witness:
  "\<exists>event v. dict_get (data denied_result) ''event'' = Inr event \<and>
     get_event_payload event = Returned v \<and>
     (\<exists>fields. v = PDict fields \<and>
        PDict [(''id'', PStr ''42''), (''secret'', PNone),
               (''errors'', PList [PDict [(''message'', PStr ''permission denied'')]])] =
          PDict (dict_store fields ''errors''
                   (PList [PDict [(''message'', PStr ''permission denied'')]])))"
proof -
  let ?e = "sample_env (Inr event_id_ast) (Inr (Observable [denied_result]))"
  let ?doc = "\<lparr>document_ast = event_id_ast,
                execute = (\<lambda>(allow::bool) (root::string \<times> pyval) (ctx::http_request).
                  Inr (Observable [denied_result]) :: exn + string results)\<rparr>"
  let ?p = "PDict [(''id'', PStr ''42''), (''secret'', PNone),
                   (''errors'', PList [PDict [(''message'', PStr ''permission denied'')]])]"
  have p: "parse ?e (Some event_id_query) = Inr event_id_ast"
    by (rule sample_parse)
  have d: "document_from_string ?e (Ast event_id_ast) = Inr ?doc"
    by (rule sample_document_from_ast)
  have x: "execute ?doc True (''event_type'', event_42)
             (get_context_value ?e (no_request\<lparr>request_app := None\<rparr>)) =
           Inr (Observable [denied_result])"
    by simp
  have g: "generate_payload_from_subscription ?e ''event_type'' event_42 (Some event_id_query)
             no_request None = (Returned ?p, [])"
    using generate_observable [OF p d x] by (simp add: denied_result_def sample_format_error)
  show ?thesis
    using errors_merged_under_key [OF p d x g]
    by (simp add: denied_result_def sample_format_error)
qed

text \<open>
  The claim as stated fails from right to left: for
  \<^verbatim>\<open>subscription { event { errors: version } }\<close> nothing fails, and the payload has
  the key \<^verbatim>\<open>errors\<close>.
\<close>

theorem errors_key_without_errors_counterexample:
  "generate_payload_from_subscription
     (sample_env (Inr event_id_ast) (Inr (Observable [aliased_result])))
     ''event_type'' event_42 (Some ''subscription { event { errors: version } }'')
     no_request None = (Returned (PDict [(''errors'', PStr ''3.1'')]), []) \<and>
   \<not> (has_key (PDict [(''errors'', PStr ''3.1'')]) ''errors'' \<longleftrightarrow>
        carries_errors aliased_result)"
  by (simp add: generate_payload_from_subscription_def sample_parse sample_document_from_ast
      aliased_result_def carries_errors_def)

text \<open>
  Claim C7. When the data of the first emitted result bind \<^verbatim>\<open>event\<close> to a promise,
  every payload the function returns is the settled value of that promise (with the
  errors set on it, if there are any) and is not a promise; without field-level errors
  the outcome of the function is the outcome of \<^verbatim>\<open>Promise.get()\<close>: the value, the
  rejection raised, or no return while the promise never settles.
\<close>

theorem deferred_event_is_resolved:
  assumes "parse e query = Inr ast"
    and "document_from_string e (Ast ast) = Inr document"
    and "execute document True (event_type, obj)
           (get_context_value e (request\<lparr>request_app := app\<rparr>)) = Inr (Observable (r # later))"
    and "dict_get (data r) ''event'' = Inr (PPromise pr)"
  shows "(\<forall>p lg. generate_payload_from_subscription e event_type obj query request app =
             (Returned p, lg) \<longrightarrow>
           \<not> is_promise p \<and>
           (\<exists>v. promise_get pr = Returned v \<and> \<not> is_promise v \<and>
              (p = v \<or>
               (\<exists>err errs. errors r = Some (err # errs) \<and>
                  setitem v ''errors'' (PList (map (format_error e) (err # errs))) = Inr p)))) \<and>
         (errors r = None \<or> errors r = Some [] \<longrightarrow>
           generate_payload_from_subscription e event_type obj query request app =
             (promise_get pr, []))"
  using assms(4) generate_observable [OF assms(1-3)]
  by (auto split: outcome.splits option.splits list.splits sum.splits
      dest: setitem_Inr promise_get_not_promise)

theorem deferred_event_is_resolved_witness:
  "generate_payload_from_subscription
     (sample_env (Inr event_id_ast) (Inr (Observable [deferred_result])))
     ''event_type'' event_42 (Some event_id_query) no_request None =
     (Returned (PDict [(''id'', PStr ''42'')]), [])"
proof -
  let ?e = "sample_env (Inr event_id_ast) (Inr (Observable [deferred_result]))"
  let ?doc = "\<lparr>document_ast = event_id_ast,
                execute = (\<lambda>(allow::bool) (root::string \<times> pyval) (ctx::http_request).
                  Inr (Observable [deferred_result]) :: exn + string results)\<rparr>"
  have p: "parse ?e (Some event_id_query) = Inr event_id_ast"
    by (rule sample_parse)
  have d: "document_from_string ?e (Ast event_id_ast) = Inr ?doc"
    by (rule sample_document_from_ast)
  have x: "execute ?doc True (''event_type'', event_42)
             (get_context_value ?e (no_request\<lparr>request_app := None\<rparr>)) =
           Inr (Observable [deferred_result])"
    by simp
  have g: "dict_get (data deferred_result) ''event'' =
             Inr (PPromise (Resolved (PPromise (Resolved event_42))))"
    by (simp add: deferred_result_def)
  show ?thesis
    using deferred_event_is_resolved [OF p d x g]
    by (simp add: deferred_result_def event_42_def)
qed

text \<open>
  Claim C10. The payload is read from the key \<^verbatim>\<open>event\<close> and from no other: when the
  data of the first emitted result are a mapping without the key \<^verbatim>\<open>event\<close> and the
  result has no field-level errors, the function returns \<^verbatim>\<open>None\<close>, whatever the
  mapping holds and whatever the query selected.
\<close>

theorem payload_hard_wired_to_event:
  assumes "parse e query = Inr ast"
    and "document_from_string e (Ast ast) = Inr document"
    and "execute document True (event_type, obj)
           (get_context_value e (request\<lparr>request_app := app\<rparr>)) = Inr (Observable (r # later))"
    and "data r = PDict kvs"
    and "''event'' \<notin> fst ` set kvs"
    and "errors r = None \<or> errors r = Some []"
  shows "generate_payload_from_subscription e event_type obj query request app =
     (Returned PNone, [])"
proof -
  have "map_of kvs ''event'' = None"
    using assms(5) by (simp add: map_of_eq_None_iff)
  then have "dict_get (data r) ''event'' = Inr PNone"
    using assms(4) by simp
  then show ?thesis
    using assms(6) generate_observable [OF assms(1-3)] by auto
qed

theorem payload_hard_wired_to_event_witness:
  "generate_payload_from_subscription
     (sample_env
        (Inr \<lparr>definitions = [OperationDefinition ''subscription'' [Field ''order'' [Field ''id'' []]]]\<rparr>)
        (Inr (Observable [other_field_result])))
     ''event_type'' event_42 (Some ''subscription { order { id } }'') no_request None =
     (Returned PNone, [])"
proof -
  let ?ast = "\<lparr>definitions = [OperationDefinition ''subscription'' [Field ''order'' [Field ''id'' []]]]\<rparr>"
  let ?e = "sample_env (Inr ?ast) (Inr (Observable [other_field_result]))"
  let ?doc = "\<lparr>document_ast = ?ast,
                execute = (\<lambda>(allow::bool) (root::string \<times> pyval) (ctx::http_request).
                  Inr (Observable [other_field_result]) :: exn + string results)\<rparr>"
  have p: "parse ?e (Some ''subscription { order { id } }'') = Inr ?ast"
    by (rule sample_parse)
  have d: "document_from_string ?e (Ast ?ast) = Inr ?doc"
    by (rule sample_document_from_ast)
  have x: "execute ?doc True (''event_type'', event_42)
             (get_context_value ?e (no_request\<lparr>request_app := None\<rparr>)) =
           Inr (Observable [other_field_result])"
    by simp
  have k: "data other_field_result = PDict [(''order'', PDict [(''id'', PStr ''42'')])]"
    by (simp add: other_field_result_def)
  have n: "''event'' \<notin> fst ` set [(''order'', PDict [(''id'', PStr ''42'')])]"
    by simp
  have z: "errors other_field_result = None \<or> errors other_field_result = Some []"
    by (simp add: other_field_result_def)
  show ?thesis
    by (rule payload_hard_wired_to_event [OF p d x k n z])
qed

text \<open>
  An event value that is no mapping cannot take the key \<^verbatim>\<open>errors\<close>: when the first
  emitted result binds \<^verbatim>\<open>event\<close> to \<^verbatim>\<open>None\<close> and carries errors, the assignment
  raises \<^verbatim>\<open>TypeError\<close> and no payload is returned.
\<close>

lemma errors_on_null_event_raise:
  assumes "parse e query = Inr ast"
    and "document_from_string e (Ast ast) = Inr document"
    and "execute document True (event_type, obj)
           (get_context_value e (request\<lparr>request_app := app\<rparr>)) = Inr (Observable (r # later))"
    and "dict_get (data r) ''event'' = Inr PNone"
    and "errors r = Some (err # errs)"
  shows "generate_payload_from_subscription e event_type obj query request app =
     (Raised (TypeError ''item assignment''), [])"
  using assms(4,5) generate_observable [OF assms(1-3)] by simp

end
